theory Spec2Isabelle
  imports Main
begin

section \<open>Errors\<close>

text \<open>
  \<open>out_of_range\<close> is the exception \<^verbatim>\<open>std::out_of_range\<close>. \<open>invalid_reference\<close> stands
  for the undefined behaviour of using a reference to an object that does not exist.
  A function that can throw returns \<open>error + 'a\<close>, with \<open>Inl\<close> for the exception.
\<close>

datatype error = out_of_range | invalid_reference

section \<open>The library type \<^verbatim>\<open>std::bitset<N>\<close>\<close>

text \<open>
  \<^verbatim>\<open>std::bitset<N>\<close> is a fixed array of \<open>N\<close> bits: a \<open>bool list\<close>, bit \<open>pos\<close> at
  index \<open>pos\<close>. The template argument \<open>N\<close> is the first argument of every operation.
  The operations follow the C++ standard: \<^verbatim>\<open>test\<close>, \<^verbatim>\<open>set(pos, val)\<close>, \<^verbatim>\<open>reset(pos)\<close>
  and \<^verbatim>\<open>flip(pos)\<close> throw \<^verbatim>\<open>std::out_of_range\<close> when \<open>pos\<close> is not a valid position
  (\<open>pos \<ge> N\<close>); \<^verbatim>\<open>all()\<close> is \<^verbatim>\<open>count() == size()\<close>, \<^verbatim>\<open>any()\<close> is \<^verbatim>\<open>count() != 0\<close>,
  \<^verbatim>\<open>none()\<close> is \<^verbatim>\<open>count() == 0\<close>. \<^verbatim>\<open>std::size_t\<close> is \<open>nat\<close>: every position the
  code computes is at most \<open>N + 1\<close>, so no arithmetic wraps.
\<close>

type_synonym ImplType = "bool list"

definition bitset_ctor :: "nat \<Rightarrow> ImplType" where
  "bitset_ctor N = replicate N False"

definition bitset_size :: "nat \<Rightarrow> ImplType \<Rightarrow> nat" where
  "bitset_size N bs = N"

definition bitset_count :: "nat \<Rightarrow> ImplType \<Rightarrow> nat" where
  "bitset_count N bs = length (filter (\<lambda>b. b) bs)"

definition bitset_all :: "nat \<Rightarrow> ImplType \<Rightarrow> bool" where
  "bitset_all N bs = (bitset_count N bs = bitset_size N bs)"

definition bitset_any :: "nat \<Rightarrow> ImplType \<Rightarrow> bool" where
  "bitset_any N bs = (bitset_count N bs \<noteq> 0)"

definition bitset_none :: "nat \<Rightarrow> ImplType \<Rightarrow> bool" where
  "bitset_none N bs = (bitset_count N bs = 0)"

definition bitset_test :: "nat \<Rightarrow> ImplType \<Rightarrow> nat \<Rightarrow> error + bool" where
  "bitset_test N bs pos = (if pos < N then Inr (bs ! pos) else Inl out_of_range)"

definition bitset_set :: "nat \<Rightarrow> ImplType \<Rightarrow> nat \<Rightarrow> bool \<Rightarrow> error + ImplType" where
  "bitset_set N bs pos val = (if pos < N then Inr (bs[pos := val]) else Inl out_of_range)"

definition bitset_reset :: "nat \<Rightarrow> ImplType \<Rightarrow> nat \<Rightarrow> error + ImplType" where
  "bitset_reset N bs pos = (if pos < N then Inr (bs[pos := False]) else Inl out_of_range)"

definition bitset_flip_pos :: "nat \<Rightarrow> ImplType \<Rightarrow> nat \<Rightarrow> error + ImplType" where
  "bitset_flip_pos N bs pos =
     (if pos < N then Inr (bs[pos := \<not> bs ! pos]) else Inl out_of_range)"

definition bitset_flip :: "nat \<Rightarrow> ImplType \<Rightarrow> ImplType" where
  "bitset_flip N bs = map Not bs"

definition bitset_and_assign :: "nat \<Rightarrow> ImplType \<Rightarrow> ImplType \<Rightarrow> ImplType" where
  "bitset_and_assign N bs rhs = map2 (\<and>) bs rhs"

definition bitset_or_assign :: "nat \<Rightarrow> ImplType \<Rightarrow> ImplType \<Rightarrow> ImplType" where
  "bitset_or_assign N bs rhs = map2 (\<or>) bs rhs"

definition bitset_xor_assign :: "nat \<Rightarrow> ImplType \<Rightarrow> ImplType \<Rightarrow> ImplType" where
  "bitset_xor_assign N bs rhs = map2 (\<noteq>) bs rhs"

section \<open>The enumeration and its trait\<close>

text \<open>
  A value of the enum class type \<open>T\<close> is represented by its underlying value, a
  non-negative ordinal. \<open>enumIndex\<close> is \<^verbatim>\<open>static_cast<std::size_t>(member)\<close>, and
  \<open>static_cast_T\<close> is the cast back, \<^verbatim>\<open>static_cast<T>(index)\<close>. The trait
  \<^verbatim>\<open>EnumTraits<T>::max\<close> is the argument \<open>mx\<close> of every member function below.
\<close>

datatype member = Enumerator nat

fun enumIndex :: "member \<Rightarrow> nat" where
  "enumIndex (Enumerator n) = n"

definition static_cast_T :: "nat \<Rightarrow> member" where
  "static_cast_T index = Enumerator index"

text \<open>
  The template argument of \<^verbatim>\<open>ImplType\<close>:
  \<^verbatim>\<open>std::bitset<static_cast<std::size_t>(EnumTraits<T>::max)>\<close>.
\<close>

definition ImplType_N :: "member \<Rightarrow> nat" where
  "ImplType_N mx = enumIndex mx"

section \<open>The class \<^verbatim>\<open>EnumClassBitset<T>\<close>\<close>

record EnumClassBitset =
  mBitset :: ImplType

text \<open>
  The invariant the type \<^verbatim>\<open>std::bitset<N>\<close> gives the member \<open>mBitset\<close>: it has
  exactly \<open>N\<close> bits.
\<close>

definition well_typed :: "member \<Rightarrow> EnumClassBitset \<Rightarrow> bool" where
  "well_typed mx s = (length (mBitset s) = ImplType_N mx)"

text \<open>The default constructor: \<open>mBitset\<close> is default-constructed, all bits false.\<close>

definition EnumClassBitset_ctor :: "member \<Rightarrow> EnumClassBitset" where
  "EnumClassBitset_ctor mx = \<lparr>mBitset = bitset_ctor (ImplType_N mx)\<rparr>"

definition test :: "member \<Rightarrow> EnumClassBitset \<Rightarrow> member \<Rightarrow> error + bool" where
  "test mx s m = bitset_test (ImplType_N mx) (mBitset s) (enumIndex m)"

definition all_ecb :: "member \<Rightarrow> EnumClassBitset \<Rightarrow> bool" where
  "all_ecb mx s = bitset_all (ImplType_N mx) (mBitset s)"

definition any_ecb :: "member \<Rightarrow> EnumClassBitset \<Rightarrow> bool" where
  "any_ecb mx s = bitset_any (ImplType_N mx) (mBitset s)"

definition none_ecb :: "member \<Rightarrow> EnumClassBitset \<Rightarrow> bool" where
  "none_ecb mx s = bitset_none (ImplType_N mx) (mBitset s)"

definition count_ecb :: "member \<Rightarrow> EnumClassBitset \<Rightarrow> nat" where
  "count_ecb mx s = bitset_count (ImplType_N mx) (mBitset s)"

definition size_ecb :: "member \<Rightarrow> EnumClassBitset \<Rightarrow> nat" where
  "size_ecb mx s = bitset_size (ImplType_N mx) (mBitset s)"

text \<open>
  The mutating member functions return \<^verbatim>\<open>*this\<close>: the model returns the object as it is
  after the call, or the exception of the \<^verbatim>\<open>std::bitset\<close> operation.
\<close>

definition reset :: "member \<Rightarrow> EnumClassBitset \<Rightarrow> member \<Rightarrow> error + EnumClassBitset" where
  "reset mx s m =
     (case bitset_reset (ImplType_N mx) (mBitset s) (enumIndex m) of
        Inl e \<Rightarrow> Inl e
      | Inr bs \<Rightarrow> Inr (s\<lparr>mBitset := bs\<rparr>))"

definition flip :: "member \<Rightarrow> EnumClassBitset \<Rightarrow> EnumClassBitset" where
  "flip mx s = s\<lparr>mBitset := bitset_flip (ImplType_N mx) (mBitset s)\<rparr>"

definition flip_member :: "member \<Rightarrow> EnumClassBitset \<Rightarrow> member \<Rightarrow> error + EnumClassBitset" where
  "flip_member mx s m =
     (case bitset_flip_pos (ImplType_N mx) (mBitset s) (enumIndex m) of
        Inl e \<Rightarrow> Inl e
      | Inr bs \<Rightarrow> Inr (s\<lparr>mBitset := bs\<rparr>))"

definition set_ecb :: "member \<Rightarrow> EnumClassBitset \<Rightarrow> member \<Rightarrow> bool \<Rightarrow> error + EnumClassBitset" where
  "set_ecb mx s m val =
     (case bitset_set (ImplType_N mx) (mBitset s) (enumIndex m) val of
        Inl e \<Rightarrow> Inl e
      | Inr bs \<Rightarrow> Inr (s\<lparr>mBitset := bs\<rparr>))"

definition op_and_assign :: "member \<Rightarrow> EnumClassBitset \<Rightarrow> EnumClassBitset \<Rightarrow> EnumClassBitset" where
  "op_and_assign mx s other =
     s\<lparr>mBitset := bitset_and_assign (ImplType_N mx) (mBitset s) (mBitset other)\<rparr>"

definition op_or_assign :: "member \<Rightarrow> EnumClassBitset \<Rightarrow> EnumClassBitset \<Rightarrow> EnumClassBitset" where
  "op_or_assign mx s other =
     s\<lparr>mBitset := bitset_or_assign (ImplType_N mx) (mBitset s) (mBitset other)\<rparr>"

definition op_xor_assign :: "member \<Rightarrow> EnumClassBitset \<Rightarrow> EnumClassBitset \<Rightarrow> EnumClassBitset" where
  "op_xor_assign mx s other =
     s\<lparr>mBitset := bitset_xor_assign (ImplType_N mx) (mBitset s) (mBitset other)\<rparr>"

text \<open>
  The binary operators and the complement are const: they copy \<^verbatim>\<open>*this\<close> into the local
  \<open>newBitset\<close>, change the copy and return it by value.
\<close>

definition op_and :: "member \<Rightarrow> EnumClassBitset \<Rightarrow> EnumClassBitset \<Rightarrow> EnumClassBitset" where
  "op_and mx s other =
     (let newBitset = s in
      newBitset\<lparr>mBitset := bitset_and_assign (ImplType_N mx) (mBitset newBitset) (mBitset other)\<rparr>)"

definition op_or :: "member \<Rightarrow> EnumClassBitset \<Rightarrow> EnumClassBitset \<Rightarrow> EnumClassBitset" where
  "op_or mx s other =
     (let newBitset = s in
      newBitset\<lparr>mBitset := bitset_or_assign (ImplType_N mx) (mBitset newBitset) (mBitset other)\<rparr>)"

definition op_xor :: "member \<Rightarrow> EnumClassBitset \<Rightarrow> EnumClassBitset \<Rightarrow> EnumClassBitset" where
  "op_xor mx s other =
     (let newBitset = s in
      newBitset\<lparr>mBitset := bitset_xor_assign (ImplType_N mx) (mBitset newBitset) (mBitset other)\<rparr>)"

definition op_not :: "member \<Rightarrow> EnumClassBitset \<Rightarrow> EnumClassBitset" where
  "op_not mx s = (let newBitset = s in flip mx newBitset)"

definition to_raw_bitset :: "member \<Rightarrow> EnumClassBitset \<Rightarrow> ImplType" where
  "to_raw_bitset mx s = mBitset s"

section \<open>Objects and references\<close>

text \<open>
  A reference (\<^verbatim>\<open>EnumClassBitset const &\<close>, \<^verbatim>\<open>this\<close>) is the address of an object. The
  store holds the \<^verbatim>\<open>EnumClassBitset\<close> objects that exist, the object of address \<open>a\<close>
  at index \<open>a\<close>; a local object is put at the next free address and removed when its
  function returns.
\<close>

type_synonym store = "EnumClassBitset list"

definition deref :: "store \<Rightarrow> nat \<Rightarrow> error + EnumClassBitset" where
  "deref st a = (if a < length st then Inr (st ! a) else Inl invalid_reference)"

text \<open>
  The assignment operators, called on the object at \<open>this\<close> with a reference to
  \<open>other\<close>: the object at \<open>this\<close> is overwritten, and the reference returned is \<open>this\<close>
  (\<^verbatim>\<open>return *this\<close>).
\<close>

definition call_op_and_assign :: "member \<Rightarrow> store \<Rightarrow> nat \<Rightarrow> nat \<Rightarrow> error + nat \<times> store" where
  "call_op_and_assign mx st this other =
     (case deref st this of Inl e \<Rightarrow> Inl e | Inr s \<Rightarrow>
       (case deref st other of Inl e \<Rightarrow> Inl e | Inr ot \<Rightarrow>
          Inr (this, list_update st this
            (s\<lparr>mBitset := bitset_and_assign (ImplType_N mx) (mBitset s) (mBitset ot)\<rparr>))))"

definition call_op_or_assign :: "member \<Rightarrow> store \<Rightarrow> nat \<Rightarrow> nat \<Rightarrow> error + nat \<times> store" where
  "call_op_or_assign mx st this other =
     (case deref st this of Inl e \<Rightarrow> Inl e | Inr s \<Rightarrow>
       (case deref st other of Inl e \<Rightarrow> Inl e | Inr ot \<Rightarrow>
          Inr (this, list_update st this
            (s\<lparr>mBitset := bitset_or_assign (ImplType_N mx) (mBitset s) (mBitset ot)\<rparr>))))"

definition call_op_xor_assign :: "member \<Rightarrow> store \<Rightarrow> nat \<Rightarrow> nat \<Rightarrow> error + nat \<times> store" where
  "call_op_xor_assign mx st this other =
     (case deref st this of Inl e \<Rightarrow> Inl e | Inr s \<Rightarrow>
       (case deref st other of Inl e \<Rightarrow> Inl e | Inr ot \<Rightarrow>
          Inr (this, list_update st this
            (s\<lparr>mBitset := bitset_xor_assign (ImplType_N mx) (mBitset s) (mBitset ot)\<rparr>))))"

text \<open>
  The binary operators and the complement, called on the object at \<open>this\<close>: the local
  \<open>newBitset\<close> is copy-constructed from \<^verbatim>\<open>*this\<close> at the fresh address \<open>length st\<close>,
  the \<^verbatim>\<open>std::bitset\<close> assignment operator (or \<^verbatim>\<open>flip()\<close>) changes the local, the local
  is returned by value and leaves the store.
\<close>

definition call_op_and :: "member \<Rightarrow> store \<Rightarrow> nat \<Rightarrow> nat \<Rightarrow> error + EnumClassBitset \<times> store" where
  "call_op_and mx st this other =
     (case deref st this of Inl e \<Rightarrow> Inl e | Inr s \<Rightarrow>
       (case deref st other of Inl e \<Rightarrow> Inl e | Inr _ \<Rightarrow>
          (let newBitset = length st;
               st1 = st @ [s];
               st2 = list_update st1 newBitset
                  ((st1 ! newBitset)\<lparr>mBitset :=
                     bitset_and_assign (ImplType_N mx)
                       (mBitset (st1 ! newBitset)) (mBitset (st1 ! other))\<rparr>)
           in Inr (st2 ! newBitset, take newBitset st2))))"

definition call_op_or :: "member \<Rightarrow> store \<Rightarrow> nat \<Rightarrow> nat \<Rightarrow> error + EnumClassBitset \<times> store" where
  "call_op_or mx st this other =
     (case deref st this of Inl e \<Rightarrow> Inl e | Inr s \<Rightarrow>
       (case deref st other of Inl e \<Rightarrow> Inl e | Inr _ \<Rightarrow>
          (let newBitset = length st;
               st1 = st @ [s];
               st2 = list_update st1 newBitset
                  ((st1 ! newBitset)\<lparr>mBitset :=
                     bitset_or_assign (ImplType_N mx)
                       (mBitset (st1 ! newBitset)) (mBitset (st1 ! other))\<rparr>)
           in Inr (st2 ! newBitset, take newBitset st2))))"

definition call_op_xor :: "member \<Rightarrow> store \<Rightarrow> nat \<Rightarrow> nat \<Rightarrow> error + EnumClassBitset \<times> store" where
  "call_op_xor mx st this other =
     (case deref st this of Inl e \<Rightarrow> Inl e | Inr s \<Rightarrow>
       (case deref st other of Inl e \<Rightarrow> Inl e | Inr _ \<Rightarrow>
          (let newBitset = length st;
               st1 = st @ [s];
               st2 = list_update st1 newBitset
                  ((st1 ! newBitset)\<lparr>mBitset :=
                     bitset_xor_assign (ImplType_N mx)
                       (mBitset (st1 ! newBitset)) (mBitset (st1 ! other))\<rparr>)
           in Inr (st2 ! newBitset, take newBitset st2))))"

definition call_op_not :: "member \<Rightarrow> store \<Rightarrow> nat \<Rightarrow> error + EnumClassBitset \<times> store" where
  "call_op_not mx st this =
     (case deref st this of Inl e \<Rightarrow> Inl e | Inr s \<Rightarrow>
      let newBitset = length st; st1 = st @ [s];
          st2 = list_update st1 newBitset (flip mx (st1 ! newBitset))
      in Inr (st2 ! newBitset, take newBitset st2))"

section \<open>The iterator\<close>

text \<open>
  The fields of \<^verbatim>\<open>EnumClassBitset::iterator\<close>: the reference \<^verbatim>\<open>bitset\<close> (an address of
  the store), \<^verbatim>\<open>index\<close> and \<^verbatim>\<open>value\<close>.
\<close>

record iterator =
  it_bitset :: nat
  it_index :: nat
  it_value :: member

definition iterator_ctor :: "nat \<Rightarrow> nat \<Rightarrow> iterator" where
  "iterator_ctor argBitset argIndex =
     \<lparr>it_bitset = argBitset, it_index = argIndex, it_value = static_cast_T argIndex\<rparr>"

text \<open>
  \<^verbatim>\<open>findNext\<close>: the loop \<^verbatim>\<open>while (index < bitset.size())\<close>, one call per iteration. An
  exception of \<^verbatim>\<open>bitset.test(value)\<close> leaves the loop.
\<close>

function findNext :: "member \<Rightarrow> store \<Rightarrow> iterator \<Rightarrow> error + iterator" where
  "findNext mx st it =
     (case deref st (it_bitset it) of Inl e \<Rightarrow> Inl e | Inr s \<Rightarrow>
      if it_index it < size_ecb mx s then
        (let it1 = it\<lparr>it_value := static_cast_T (it_index it)\<rparr> in
         case test mx s (it_value it1) of
           Inl e \<Rightarrow> Inl e
         | Inr present \<Rightarrow>
             if present then Inr it1
             else findNext mx st (it1\<lparr>it_index := it_index it1 + 1\<rparr>))
      else Inr it)"
  by pat_completeness auto
termination
  by (relation "measure (\<lambda>(mx, st, it). ImplType_N mx - it_index it)")
     (auto simp: size_ecb_def bitset_size_def)

declare findNext.simps [simp del]

definition op_deref :: "iterator \<Rightarrow> member" where
  "op_deref it = it_value it"

definition op_inc :: "member \<Rightarrow> store \<Rightarrow> iterator \<Rightarrow> error + iterator" where
  "op_inc mx st it = findNext mx st (it\<lparr>it_index := it_index it + 1\<rparr>)"

definition op_eq_iterator :: "iterator \<Rightarrow> iterator \<Rightarrow> bool" where
  "op_eq_iterator it other = (it_bitset it = it_bitset other \<and> it_index it = it_index other)"

definition op_neq_iterator :: "iterator \<Rightarrow> iterator \<Rightarrow> bool" where
  "op_neq_iterator it other = (\<not> op_eq_iterator it other)"

text \<open>\<^verbatim>\<open>begin()\<close> and \<^verbatim>\<open>end()\<close> of the object at \<open>this\<close>.\<close>

definition begin_ecb :: "member \<Rightarrow> store \<Rightarrow> nat \<Rightarrow> error + iterator" where
  "begin_ecb mx st this = (let iter = iterator_ctor this 0 in findNext mx st iter)"

definition end_ecb :: "member \<Rightarrow> nat \<Rightarrow> iterator" where
  "end_ecb mx this = iterator_ctor this (enumIndex mx)"

text \<open>
  The range-based for loop \<^verbatim>\<open>for (auto el : e)\<close> over the object at \<open>this\<close>:
  \<^verbatim>\<open>for (auto it = e.begin(), past = e.end(); it != past; ++it) { auto el = *it; ... }\<close>.
  The model collects the elements \<open>el\<close> in the order the loop body sees them. The result
  is \<open>None\<close> when the loop does not end.
\<close>

partial_function (option) range_for_loop ::
  "member \<Rightarrow> store \<Rightarrow> iterator \<Rightarrow> iterator \<Rightarrow> member list \<Rightarrow> (error + member list) option" where
  "range_for_loop mx st it past els =
     (if op_neq_iterator it past then
        (case op_inc mx st it of
           Inl e \<Rightarrow> Some (Inl e)
         | Inr it' \<Rightarrow> range_for_loop mx st it' past (els @ [op_deref it]))
      else Some (Inr els))"

declare range_for_loop.simps [code]

definition range_for :: "member \<Rightarrow> store \<Rightarrow> nat \<Rightarrow> (error + member list) option" where
  "range_for mx st this =
     (case begin_ecb mx st this of
        Inl e \<Rightarrow> Some (Inl e)
      | Inr it \<Rightarrow> range_for_loop mx st it (end_ecb mx this) [])"

section \<open>The enumerations of the test and the example program\<close>

text \<open>
  \<^verbatim>\<open>enum class TestEnum { A, B, C, D, E }\<close> with \<^verbatim>\<open>EnumTraits<TestEnum>::max = TestEnum::E\<close>,
  and an enumeration of one enumerator, \<^verbatim>\<open>enum class Single { ONLY }\<close> with
  \<^verbatim>\<open>max = Single::ONLY\<close>.
\<close>

definition TestEnum_A :: member where "TestEnum_A = Enumerator 0"
definition TestEnum_B :: member where "TestEnum_B = Enumerator 1"
definition TestEnum_C :: member where "TestEnum_C = Enumerator 2"
definition TestEnum_D :: member where "TestEnum_D = Enumerator 3"
definition TestEnum_E :: member where "TestEnum_E = Enumerator 4"

definition TestEnum_max :: member where "TestEnum_max = TestEnum_E"

definition Single_ONLY :: member where "Single_ONLY = Enumerator 0"

definition Single_max :: member where "Single_max = Single_ONLY"

text \<open>
  The statements of the test program that export the set \<open>e2\<close> and change the copy,
  with the copy declared as \<^verbatim>\<open>ImplType raw\<close>:
  \<^verbatim>\<open>raw = e2.to_raw_bitset();\<close> and \<^verbatim>\<open>raw.set(pos, val);\<close>. The state is the pair of the two
  variables.
\<close>

record test_vars =
  e2 :: EnumClassBitset
  raw :: ImplType

definition stmt_export :: "member \<Rightarrow> test_vars \<Rightarrow> test_vars" where
  "stmt_export mx vars = vars\<lparr>raw := to_raw_bitset mx (e2 vars)\<rparr>"

definition stmt_raw_set :: "member \<Rightarrow> test_vars \<Rightarrow> nat \<Rightarrow> bool \<Rightarrow> error + test_vars" where
  "stmt_raw_set mx vars pos val =
     (case bitset_set (ImplType_N mx) (raw vars) pos val of
        Inl e \<Rightarrow> Inl e
      | Inr bs \<Rightarrow> Inr (vars\<lparr>raw := bs\<rparr>))"

section \<open>Expressions that can throw\<close>

text \<open>
  The value of the C++ expressions \<^verbatim>\<open>x && y\<close>, \<^verbatim>\<open>x || y\<close>, \<^verbatim>\<open>x != y\<close>, \<^verbatim>\<open>!x\<close> and \<^verbatim>\<open>x == y\<close> over
  operands that can throw: the left operand is evaluated first, \<^verbatim>\<open>&&\<close> and \<^verbatim>\<open>||\<close>
  evaluate the right operand only when the left one does not decide the result, and an
  exception of an operand is the exception of the expression.
\<close>

definition cpp_and :: "error + bool \<Rightarrow> error + bool \<Rightarrow> error + bool" where
  "cpp_and x y = (case x of Inl e \<Rightarrow> Inl e | Inr p \<Rightarrow> if p then y else Inr False)"

definition cpp_or :: "error + bool \<Rightarrow> error + bool \<Rightarrow> error + bool" where
  "cpp_or x y = (case x of Inl e \<Rightarrow> Inl e | Inr p \<Rightarrow> if p then Inr True else y)"

definition cpp_neq :: "error + bool \<Rightarrow> error + bool \<Rightarrow> error + bool" where
  "cpp_neq x y =
     (case x of Inl e \<Rightarrow> Inl e | Inr p \<Rightarrow>
       (case y of Inl e \<Rightarrow> Inl e | Inr q \<Rightarrow> Inr (p \<noteq> q)))"

definition cpp_not :: "error + bool \<Rightarrow> error + bool" where
  "cpp_not x = (case x of Inl e \<Rightarrow> Inl e | Inr p \<Rightarrow> Inr (\<not> p))"

definition cpp_eq :: "error + bool \<Rightarrow> error + bool \<Rightarrow> error + bool" where
  "cpp_eq x y =
     (case x of Inl e \<Rightarrow> Inl e | Inr p \<Rightarrow>
       (case y of Inl e \<Rightarrow> Inl e | Inr q \<Rightarrow> Inr (p = q)))"

section \<open>What \<open>findNext\<close> establishes\<close>

text \<open>
  The iterator \<open>it'\<close> that \<open>findNext\<close> returns, started at index \<open>i\<close> on the object \<open>s\<close>
  at address \<open>a\<close>: it still refers to \<open>a\<close>, its index is between \<open>i\<close> and \<open>size()\<close>, no
  bit from \<open>i\<close> up to its index is set, and below \<open>size()\<close> its index is a set bit and its
  value is that index cast to \<open>T\<close>.
\<close>

definition findNext_post :: "member \<Rightarrow> EnumClassBitset \<Rightarrow> nat \<Rightarrow> nat \<Rightarrow> iterator \<Rightarrow> bool" where
  "findNext_post mx s a i it' =
     (it_bitset it' = a \<and> i \<le> it_index it' \<and> it_index it' \<le> size_ecb mx s \<and>
      (\<forall>j. i \<le> j \<and> j < it_index it' \<longrightarrow> \<not> mBitset s ! j) \<and>
      (it_index it' < size_ecb mx s \<longrightarrow>
         mBitset s ! it_index it' \<and> it_value it' = static_cast_T (it_index it')))"

section \<open>Facts about the model\<close>

lemma findNext_stop:
  "deref st (it_bitset it) = Inr s \<Longrightarrow> \<not> it_index it < size_ecb mx s \<Longrightarrow> findNext mx st it = Inr it"
  by (subst findNext.simps) simp

lemma findNext_found:
  "deref st (it_bitset it) = Inr s \<Longrightarrow> it_index it < size_ecb mx s \<Longrightarrow>
   test mx s (static_cast_T (it_index it)) = Inr True \<Longrightarrow>
   findNext mx st it = Inr (it\<lparr>it_value := static_cast_T (it_index it)\<rparr>)"
  by (subst findNext.simps) (simp add: Let_def)

lemma findNext_skip:
  "deref st (it_bitset it) = Inr s \<Longrightarrow> it_index it < size_ecb mx s \<Longrightarrow>
   test mx s (static_cast_T (it_index it)) = Inr False \<Longrightarrow>
   findNext mx st it =
     findNext mx st (it\<lparr>it_value := static_cast_T (it_index it), it_index := it_index it + 1\<rparr>)"
  by (subst findNext.simps) (simp add: Let_def)



lemma size_ecb_eq: "size_ecb mx s = enumIndex mx"
  by (simp add: size_ecb_def bitset_size_def ImplType_N_def)

lemma test_in_range:
  "enumIndex m < size_ecb mx s \<Longrightarrow> test mx s m = Inr (mBitset s ! enumIndex m)"
  by (simp add: test_def bitset_test_def size_ecb_def bitset_size_def)

lemma test_out_of_range:
  "\<not> enumIndex m < size_ecb mx s \<Longrightarrow> test mx s m = Inl out_of_range"
  by (simp add: test_def bitset_test_def size_ecb_def bitset_size_def)

lemma filter_upt_skip:
  assumes "i \<le> k" and "k \<le> n" and "\<forall>j. i \<le> j \<and> j < k \<longrightarrow> \<not> P j"
  shows "filter P [i..<n] = filter P [k..<n]"
proof -
  have "[i..<n] = [i..<k] @ [k..<n]"
    using assms(1,2) by (metis le_Suc_ex upt_add_eq_append)
  moreover have "filter P [i..<k] = []"
    using assms(3) by (auto simp: filter_empty_conv)
  ultimately show ?thesis by simp
qed

lemma findNext_spec:
  assumes "deref st a = Inr s"
  shows "it_bitset it = a \<Longrightarrow> it_index it \<le> size_ecb mx s \<Longrightarrow>
     \<exists>it'. findNext mx st it = Inr it' \<and> findNext_post mx s a (it_index it) it'"
proof (induction "size_ecb mx s - it_index it" arbitrary: it)
  case 0
  then have "findNext mx st it = Inr it"
    using assms by (intro findNext_stop[where s = s]) auto
  with 0 show ?case by (auto simp: findNext_post_def)
next
  case (Suc n)
  then have lt: "it_index it < size_ecb mx s" by simp
  have d: "deref st (it_bitset it) = Inr s" using assms Suc.prems by simp
  have tst: "test mx s (static_cast_T (it_index it)) = Inr (mBitset s ! it_index it)"
    using lt by (simp add: test_in_range static_cast_T_def)
  show ?case
  proof (cases "mBitset s ! it_index it")
    case True
    then have "findNext mx st it = Inr (it\<lparr>it_value := static_cast_T (it_index it)\<rparr>)"
      using d lt tst by (intro findNext_found[where s = s]) auto
    then show ?thesis using Suc.prems lt True by (auto simp: findNext_post_def)
  next
    case False
    let ?it2 = "it\<lparr>it_value := static_cast_T (it_index it), it_index := it_index it + 1\<rparr>"
    have step: "findNext mx st it = findNext mx st ?it2"
      using d lt tst False by (intro findNext_skip[where s = s]) auto
    have "\<exists>it'. findNext mx st ?it2 = Inr it' \<and> findNext_post mx s a (it_index ?it2) it'"
      using Suc.hyps(2) Suc.prems lt by (intro Suc.hyps(1)) auto
    then obtain it' where r: "findNext mx st ?it2 = Inr it'"
        and p: "findNext_post mx s a (it_index it + 1) it'"
      by auto
    have "\<not> mBitset s ! j" if "it_index it \<le> j \<and> j < it_index it'" for j
    proof (cases "j = it_index it")
      case True then show ?thesis using False by simp
    next
      case False
      then have "it_index it + 1 \<le> j" using that by simp
      then show ?thesis using p that by (auto simp: findNext_post_def)
    qed
    then have "findNext_post mx s a (it_index it) it'"
      using p by (auto simp: findNext_post_def)
    with r step show ?thesis by simp
  qed
qed

lemma range_for_loop_spec:
  assumes d: "deref st a = Inr s"
  shows "it_bitset it = a \<Longrightarrow> it_index it \<le> size_ecb mx s \<Longrightarrow>
     (it_index it < size_ecb mx s \<longrightarrow>
        mBitset s ! it_index it \<and> it_value it = static_cast_T (it_index it)) \<Longrightarrow>
     range_for_loop mx st it (end_ecb mx a) els =
       Some (Inr (els @ map static_cast_T
         (filter (\<lambda>j. mBitset s ! j) [it_index it..<size_ecb mx s])))"
proof (induction "size_ecb mx s - it_index it" arbitrary: it els rule: less_induct)
  case less
  show ?case
  proof (cases "it_index it < size_ecb mx s")
    case False
    then have "op_eq_iterator it (end_ecb mx a)"
      using less.prems
      by (simp add: op_eq_iterator_def end_ecb_def iterator_ctor_def size_ecb_eq)
    then show ?thesis using False
      by (subst range_for_loop.simps) (simp add: op_neq_iterator_def)
  next
    case True
    then have neq: "op_neq_iterator it (end_ecb mx a)"
      by (simp add: op_neq_iterator_def op_eq_iterator_def end_ecb_def iterator_ctor_def
          size_ecb_eq)
    let ?it1 = "it\<lparr>it_index := it_index it + 1\<rparr>"
    have "\<exists>it'. findNext mx st ?it1 = Inr it' \<and> findNext_post mx s a (it_index ?it1) it'"
      using less.prems True by (intro findNext_spec[OF d]) auto
    then obtain it' where r: "op_inc mx st it = Inr it'"
        and p: "findNext_post mx s a (it_index it + 1) it'"
      by (auto simp: op_inc_def)
    have ih: "range_for_loop mx st it' (end_ecb mx a) (els @ [op_deref it]) =
       Some (Inr ((els @ [op_deref it]) @ map static_cast_T
         (filter (\<lambda>j. mBitset s ! j) [it_index it'..<size_ecb mx s])))"
      using p True by (intro less.hyps) (auto simp: findNext_post_def)
    have "filter (\<lambda>j. mBitset s ! j) [it_index it..<size_ecb mx s] =
          it_index it # filter (\<lambda>j. mBitset s ! j) [it_index it + 1..<size_ecb mx s]"
      using True less.prems by (simp add: upt_conv_Cons)
    also have "filter (\<lambda>j. mBitset s ! j) [it_index it + 1..<size_ecb mx s] =
          filter (\<lambda>j. mBitset s ! j) [it_index it'..<size_ecb mx s]"
      using p by (intro filter_upt_skip) (auto simp: findNext_post_def)
    finally have fl: "filter (\<lambda>j. mBitset s ! j) [it_index it..<size_ecb mx s] =
          it_index it # filter (\<lambda>j. mBitset s ! j) [it_index it'..<size_ecb mx s]" .
    have "range_for_loop mx st it (end_ecb mx a) els =
          range_for_loop mx st it' (end_ecb mx a) (els @ [op_deref it])"
      using neq r by (subst range_for_loop.simps) simp
    then show ?thesis using ih fl less.prems True by (simp add: op_deref_def)
  qed
qed

lemma range_for_spec:
  assumes d: "deref st a = Inr s"
  shows "range_for mx st a =
     Some (Inr (map static_cast_T (filter (\<lambda>j. mBitset s ! j) [0..<size_ecb mx s])))"
proof -
  have "\<exists>it'. findNext mx st (iterator_ctor a 0) = Inr it' \<and>
          findNext_post mx s a (it_index (iterator_ctor a 0)) it'"
    by (intro findNext_spec[OF d]) (auto simp: iterator_ctor_def)
  then obtain it where b: "begin_ecb mx st a = Inr it" and p: "findNext_post mx s a 0 it"
    by (auto simp: begin_ecb_def iterator_ctor_def)
  have "range_for_loop mx st it (end_ecb mx a) [] =
       Some (Inr ([] @ map static_cast_T
         (filter (\<lambda>j. mBitset s ! j) [it_index it..<size_ecb mx s])))"
    using p by (intro range_for_loop_spec[OF d]) (auto simp: findNext_post_def)
  moreover have "filter (\<lambda>j. mBitset s ! j) [0..<size_ecb mx s] =
       filter (\<lambda>j. mBitset s ! j) [it_index it..<size_ecb mx s]"
    using p by (intro filter_upt_skip) (auto simp: findNext_post_def)
  ultimately show ?thesis using b by (simp add: range_for_def)
qed

section \<open>The claims\<close>

lemmas TestEnum_defs = TestEnum_max_def TestEnum_A_def TestEnum_B_def TestEnum_C_def
  TestEnum_D_def TestEnum_E_def Single_max_def Single_ONLY_def

lemmas bitset_defs = bitset_ctor_def bitset_size_def bitset_count_def bitset_all_def
  bitset_any_def bitset_none_def bitset_test_def bitset_set_def bitset_reset_def
  bitset_flip_pos_def bitset_flip_def bitset_and_assign_def bitset_or_assign_def
  bitset_xor_assign_def

lemmas ecb_defs = ImplType_N_def EnumClassBitset_ctor_def test_def all_ecb_def any_ecb_def
  none_ecb_def count_ecb_def size_ecb_def reset_def flip_def flip_member_def set_ecb_def
  op_and_assign_def op_or_assign_def op_xor_assign_def op_and_def op_or_def op_xor_def
  op_not_def to_raw_bitset_def

text \<open>
  Claim C1 says that \<open>size()\<close> is \<open>ordinal(max) + 1\<close>. The code sizes the storage with
  \<^verbatim>\<open>static_cast<std::size_t>(EnumTraits<T>::max)\<close>: for \<^verbatim>\<open>TestEnum\<close>, whose last member \<open>E\<close> has
  ordinal 4, \<open>size()\<close> is 4 and not 5. (\<open>size_ecb_eq\<close> is the general fact: \<open>size()\<close> is
  the ordinal of \<open>max\<close>, for every instance.)
\<close>

theorem C1_size_TestEnum:
  "size_ecb TestEnum_max (EnumClassBitset_ctor TestEnum_max) = 4 \<and>
   enumIndex TestEnum_max + 1 = 5"
  by (simp add: TestEnum_defs ecb_defs bitset_defs)

text \<open>
  Claim C10: for every trait value \<open>max\<close> and every set, \<open>test(max)\<close> throws
  \<^verbatim>\<open>std::out_of_range\<close>, because the storage has \<open>ordinal(max)\<close> bits: the ordinal of \<open>max\<close>
  is not a valid position.
\<close>

theorem C10_test_max_out_of_range:
  "test mx s mx = Inl out_of_range \<and> size_ecb mx s = enumIndex mx"
  by (simp add: test_def bitset_test_def size_ecb_def bitset_size_def ImplType_N_def)

text \<open>
  C10 at \<^verbatim>\<open>TestEnum\<close>: \<open>test(TestEnum::E)\<close> throws on the default-constructed set.
\<close>

theorem C10_test_max_out_of_range_witness:
  "test TestEnum_max (EnumClassBitset_ctor TestEnum_max) TestEnum_max = Inl out_of_range \<and>
   size_ecb TestEnum_max (EnumClassBitset_ctor TestEnum_max) = 4"
  using C10_test_max_out_of_range [of TestEnum_max "EnumClassBitset_ctor TestEnum_max"]
  by (simp add: TestEnum_defs)

text \<open>
  Claim C2 says that \<open>test\<close> is the only operation that validates bounds. \<open>set\<close> calls
  \<^verbatim>\<open>std::bitset::set(pos, val)\<close>, which validates \<open>pos\<close> too: with the invalid enum value of
  ordinal 7, \<open>set\<close> on a \<^verbatim>\<open>TestEnum\<close> set throws \<^verbatim>\<open>std::out_of_range\<close>.
\<close>

theorem C2_set_validates_bounds:
  "set_ecb TestEnum_max (EnumClassBitset_ctor TestEnum_max) (Enumerator 7) True
     = Inl out_of_range"
  by (simp add: TestEnum_defs ecb_defs bitset_defs)

text \<open>
  Claim C2 as amended: \<open>test(m)\<close> returns whether \<open>m\<close> is present (its bit) when the ordinal
  of \<open>m\<close> is below \<open>size()\<close>, and throws \<^verbatim>\<open>std::out_of_range\<close> exactly when the ordinal is
  not below \<open>size()\<close>; \<open>set(m, val)\<close>, \<open>reset(m)\<close> and \<open>flip(m)\<close> throw
  \<^verbatim>\<open>std::out_of_range\<close> in exactly the same case.
\<close>

theorem C2_bounds_validation:
  "(enumIndex m < size_ecb mx s \<longrightarrow> test mx s m = Inr (mBitset s ! enumIndex m)) \<and>
   (test mx s m = Inl out_of_range \<longleftrightarrow> size_ecb mx s \<le> enumIndex m) \<and>
   (set_ecb mx s m val = Inl out_of_range \<longleftrightarrow> size_ecb mx s \<le> enumIndex m) \<and>
   (reset mx s m = Inl out_of_range \<longleftrightarrow> size_ecb mx s \<le> enumIndex m) \<and>
   (flip_member mx s m = Inl out_of_range \<longleftrightarrow> size_ecb mx s \<le> enumIndex m)"
  by (auto simp: ecb_defs bitset_defs)

text \<open>
  C2 as amended at \<^verbatim>\<open>TestEnum::A\<close> on the default-constructed set: the ordinal is below
  \<open>size()\<close>, \<open>test\<close> returns false and \<open>set\<close> does not throw.
\<close>

theorem C2_bounds_validation_witness:
  "enumIndex TestEnum_A < size_ecb TestEnum_max (EnumClassBitset_ctor TestEnum_max) \<and>
   test TestEnum_max (EnumClassBitset_ctor TestEnum_max) TestEnum_A = Inr False \<and>
   set_ecb TestEnum_max (EnumClassBitset_ctor TestEnum_max) TestEnum_A True \<noteq> Inl out_of_range"
  using C2_bounds_validation
    [of TestEnum_A TestEnum_max "EnumClassBitset_ctor TestEnum_max" True]
  by (simp add: TestEnum_defs ecb_defs bitset_defs)

text \<open>
  Claim C3 says that a default-constructed set has \<open>all() == (K == 0)\<close> with
  \<open>K = ordinal(max) + 1\<close>; \<open>K\<close> is never 0, so \<open>all()\<close> is to be false. For an enumeration
  of one enumerator the storage is \<^verbatim>\<open>std::bitset<0>\<close>, and \<open>all()\<close> of the
  default-constructed set is true. The other parts of the claim hold for every
  enumeration: \<open>default_constructed_members\<close> and \<open>default_constructed_begin_is_end\<close> below
  (\<open>none()\<close> is true, \<open>any()\<close> is false, \<open>count()\<close> is 0, \<open>begin() == end()\<close>, and \<open>all()\<close> is
  \<open>size() == 0\<close>).
\<close>

theorem C3_all_Single:
  "all_ecb Single_max (EnumClassBitset_ctor Single_max) \<and>
   enumIndex Single_max + 1 \<noteq> 0"
  by (simp add: TestEnum_defs ecb_defs bitset_defs)

lemma default_constructed_members:
  "none_ecb mx (EnumClassBitset_ctor mx) \<and> \<not> any_ecb mx (EnumClassBitset_ctor mx) \<and>
   all_ecb mx (EnumClassBitset_ctor mx) = (size_ecb mx (EnumClassBitset_ctor mx) = 0) \<and>
   count_ecb mx (EnumClassBitset_ctor mx) = 0"
  by (auto simp: ecb_defs bitset_defs)

lemma default_constructed_begin_is_end:
  assumes "deref st a = Inr (EnumClassBitset_ctor mx)"
  shows "\<exists>it. begin_ecb mx st a = Inr it \<and> op_eq_iterator it (end_ecb mx a)"
proof -
  let ?s = "EnumClassBitset_ctor mx"
  have "\<exists>it'. findNext mx st (iterator_ctor a 0) = Inr it' \<and>
          findNext_post mx ?s a (it_index (iterator_ctor a 0)) it'"
    by (intro findNext_spec[OF assms]) (auto simp: iterator_ctor_def)
  then obtain it where b: "begin_ecb mx st a = Inr it" and p: "findNext_post mx ?s a 0 it"
    by (auto simp: begin_ecb_def iterator_ctor_def)
  have "\<not> it_index it < size_ecb mx ?s"
  proof
    assume lt: "it_index it < size_ecb mx ?s"
    then have "mBitset ?s ! it_index it" using p by (simp add: findNext_post_def)
    then show False using lt by (simp add: ecb_defs bitset_defs)
  qed
  then have "it_index it = enumIndex mx"
    using p by (simp add: findNext_post_def size_ecb_eq)
  then have "op_eq_iterator it (end_ecb mx a)"
    using p by (simp add: op_eq_iterator_def end_ecb_def iterator_ctor_def findNext_post_def)
  with b show ?thesis by blast
qed

text \<open>
  Claim C4 says that after \<open>s.set(m)\<close> the call \<open>s.test(m)\<close> returns true, for every member
  \<open>m\<close>. For the last member the ordinal is \<open>size()\<close>: \<open>set(TestEnum::E)\<close> throws
  \<^verbatim>\<open>std::out_of_range\<close> and sets nothing. For the members below \<open>size()\<close> the claim holds:
  \<open>set_reset_flip_below_size\<close> below.
\<close>

theorem C4_set_TestEnum_E:
  "set_ecb TestEnum_max (EnumClassBitset_ctor TestEnum_max) TestEnum_E True
     = Inl out_of_range"
  by (simp add: TestEnum_defs ecb_defs bitset_defs)

lemma set_reset_flip_below_size:
  assumes "well_typed mx s" and "enumIndex m < size_ecb mx s"
  shows "\<exists>s1 s2 s3 b. set_ecb mx s m True = Inr s1 \<and> test mx s1 m = Inr True \<and>
     well_typed mx s1 \<and>
     reset mx s1 m = Inr s2 \<and> test mx s2 m = Inr False \<and>
     test mx s m = Inr b \<and> flip_member mx s m = Inr s3 \<and> test mx s3 m = Inr (\<not> b)"
  using assms by (simp add: well_typed_def ecb_defs bitset_defs)

lemma well_typed_algebra:
  "well_typed mx a \<Longrightarrow> well_typed mx b \<Longrightarrow>
   well_typed mx (op_and mx a b) \<and> well_typed mx (op_or mx a b) \<and>
   well_typed mx (op_xor mx a b) \<and> well_typed mx (op_not mx a)"
  by (simp add: well_typed_def ecb_defs bitset_defs)

text \<open>
  Claim C5 says that \<open>(a & b).test(m) == (a.test(m) && b.test(m))\<close>,
  \<open>(a | b).test(m) == (a.test(m) || b.test(m))\<close>, \<open>(a ^ b).test(m) == (a.test(m) != b.test(m))\<close>
  and \<open>(~a).test(m) == !a.test(m)\<close> hold for every member \<open>m\<close>. For the last member of
  \<^verbatim>\<open>TestEnum\<close> the ordinal is \<open>size()\<close>: on the sets \<open>{A, B}\<close> and \<open>{B, D}\<close> each of the four
  expressions throws \<^verbatim>\<open>std::out_of_range\<close> at \<open>m = E\<close> instead of being true, and the
  complement of \<open>{A}\<close> has three members, not four. For the members below \<open>size()\<close> the
  equations hold: \<open>set_algebra_below_size\<close> below.
\<close>

theorem C5_expressions_throw_TestEnum_E:
  "cpp_eq (test TestEnum_max (op_and TestEnum_max \<lparr>mBitset = [True, True, False, False]\<rparr>
              \<lparr>mBitset = [False, True, False, True]\<rparr>) TestEnum_E)
          (cpp_and (test TestEnum_max \<lparr>mBitset = [True, True, False, False]\<rparr> TestEnum_E)
                   (test TestEnum_max \<lparr>mBitset = [False, True, False, True]\<rparr> TestEnum_E))
     = Inl out_of_range \<and>
   cpp_eq (test TestEnum_max (op_or TestEnum_max \<lparr>mBitset = [True, True, False, False]\<rparr>
              \<lparr>mBitset = [False, True, False, True]\<rparr>) TestEnum_E)
          (cpp_or (test TestEnum_max \<lparr>mBitset = [True, True, False, False]\<rparr> TestEnum_E)
                  (test TestEnum_max \<lparr>mBitset = [False, True, False, True]\<rparr> TestEnum_E))
     = Inl out_of_range \<and>
   cpp_eq (test TestEnum_max (op_xor TestEnum_max \<lparr>mBitset = [True, True, False, False]\<rparr>
              \<lparr>mBitset = [False, True, False, True]\<rparr>) TestEnum_E)
          (cpp_neq (test TestEnum_max \<lparr>mBitset = [True, True, False, False]\<rparr> TestEnum_E)
                   (test TestEnum_max \<lparr>mBitset = [False, True, False, True]\<rparr> TestEnum_E))
     = Inl out_of_range \<and>
   cpp_eq (test TestEnum_max (op_not TestEnum_max \<lparr>mBitset = [True, True, False, False]\<rparr>)
              TestEnum_E)
          (cpp_not (test TestEnum_max \<lparr>mBitset = [True, True, False, False]\<rparr> TestEnum_E))
     = Inl out_of_range \<and>
   count_ecb TestEnum_max (op_not TestEnum_max \<lparr>mBitset = [True, False, False, False]\<rparr>) = 3"
  by (simp add: TestEnum_defs ecb_defs bitset_defs cpp_eq_def cpp_and_def cpp_or_def
      cpp_neq_def cpp_not_def)

text \<open>
  Below \<open>size()\<close> the set algebra is pointwise: for sets \<open>a\<close> and \<open>b\<close> that have the bits
  of their type, and a member \<open>m\<close> whose ordinal is below \<open>size()\<close>, every call of \<open>test\<close>
  returns, and \<open>test\<close> of \<open>a & b\<close>, \<open>a | b\<close>, \<open>a ^ b\<close> and \<open>~a\<close> is the conjunction, the
  disjunction, the inequality and the negation of \<open>test\<close> of the operands.
\<close>

lemma set_algebra_below_size:
  assumes "well_typed mx a" and "well_typed mx b" and "enumIndex m < size_ecb mx a"
  shows "\<exists>x y. test mx a m = Inr x \<and> test mx b m = Inr y \<and>
               test mx (op_and mx a b) m = Inr (x \<and> y) \<and>
               test mx (op_or mx a b) m = Inr (x \<or> y) \<and>
               test mx (op_xor mx a b) m = Inr (x \<noteq> y) \<and>
               test mx (op_not mx a) m = Inr (\<not> x)"
  using assms by (simp add: well_typed_def ecb_defs bitset_defs)

text \<open>
  Claim C6: called on objects of the store, the binary operators \<open>&\<close>, \<open>|\<close>, \<open>^\<close> and the
  complement \<open>~\<close> return a new set by value, the bitwise conjunction, disjunction,
  inequality and negation of the operands' bits, and leave the store as it was, so both
  operands are unchanged. The assignment forms \<open>&=\<close>, \<open>|=\<close>, \<open>^=\<close> return the reference to
  the left operand, and the store they leave differs from the old one only at the left
  operand, which now holds the bitwise conjunction, disjunction and inequality of the
  old bits of the two operands. For operands that have the bits of their type, bit \<open>i\<close>
  of each result is the operation on bit \<open>i\<close> of the operands.
\<close>

theorem C6_operands_and_results:
  assumes "a < length st" and "b < length st"
  shows "call_op_and mx st a b =
           Inr (\<lparr>mBitset = map2 (\<and>) (mBitset (st ! a)) (mBitset (st ! b))\<rparr>, st) \<and>
         call_op_or mx st a b =
           Inr (\<lparr>mBitset = map2 (\<or>) (mBitset (st ! a)) (mBitset (st ! b))\<rparr>, st) \<and>
         call_op_xor mx st a b =
           Inr (\<lparr>mBitset = map2 (\<noteq>) (mBitset (st ! a)) (mBitset (st ! b))\<rparr>, st) \<and>
         call_op_not mx st a = Inr (\<lparr>mBitset = map Not (mBitset (st ! a))\<rparr>, st) \<and>
         call_op_and_assign mx st a b =
           Inr (a, st[a := \<lparr>mBitset = map2 (\<and>) (mBitset (st ! a)) (mBitset (st ! b))\<rparr>]) \<and>
         call_op_or_assign mx st a b =
           Inr (a, st[a := \<lparr>mBitset = map2 (\<or>) (mBitset (st ! a)) (mBitset (st ! b))\<rparr>]) \<and>
         call_op_xor_assign mx st a b =
           Inr (a, st[a := \<lparr>mBitset = map2 (\<noteq>) (mBitset (st ! a)) (mBitset (st ! b))\<rparr>]) \<and>
         (well_typed mx (st ! a) \<and> well_typed mx (st ! b) \<longrightarrow>
            (\<forall>i. i < size_ecb mx (st ! a) \<longrightarrow>
               map2 (\<and>) (mBitset (st ! a)) (mBitset (st ! b)) ! i =
                 (mBitset (st ! a) ! i \<and> mBitset (st ! b) ! i) \<and>
               map2 (\<or>) (mBitset (st ! a)) (mBitset (st ! b)) ! i =
                 (mBitset (st ! a) ! i \<or> mBitset (st ! b) ! i) \<and>
               map2 (\<noteq>) (mBitset (st ! a)) (mBitset (st ! b)) ! i =
                 (mBitset (st ! a) ! i \<noteq> mBitset (st ! b) ! i) \<and>
               map Not (mBitset (st ! a)) ! i = (\<not> mBitset (st ! a) ! i)))"
proof -
  have upd: "s\<lparr>mBitset := bs\<rparr> = \<lparr>mBitset = bs\<rparr>" for s :: EnumClassBitset and bs
    by (cases s) simp
  have calls: "call_op_and mx st a b =
           Inr (\<lparr>mBitset = map2 (\<and>) (mBitset (st ! a)) (mBitset (st ! b))\<rparr>, st) \<and>
         call_op_or mx st a b =
           Inr (\<lparr>mBitset = map2 (\<or>) (mBitset (st ! a)) (mBitset (st ! b))\<rparr>, st) \<and>
         call_op_xor mx st a b =
           Inr (\<lparr>mBitset = map2 (\<noteq>) (mBitset (st ! a)) (mBitset (st ! b))\<rparr>, st) \<and>
         call_op_not mx st a = Inr (\<lparr>mBitset = map Not (mBitset (st ! a))\<rparr>, st)"
    using assms
    by (simp add: call_op_and_def call_op_or_def call_op_xor_def call_op_not_def deref_def
        Let_def nth_append flip_def bitset_defs upd)
  have assigns: "call_op_and_assign mx st a b =
           Inr (a, st[a := \<lparr>mBitset = map2 (\<and>) (mBitset (st ! a)) (mBitset (st ! b))\<rparr>]) \<and>
         call_op_or_assign mx st a b =
           Inr (a, st[a := \<lparr>mBitset = map2 (\<or>) (mBitset (st ! a)) (mBitset (st ! b))\<rparr>]) \<and>
         call_op_xor_assign mx st a b =
           Inr (a, st[a := \<lparr>mBitset = map2 (\<noteq>) (mBitset (st ! a)) (mBitset (st ! b))\<rparr>])"
    using assms
    by (simp add: call_op_and_assign_def call_op_or_assign_def call_op_xor_assign_def
        deref_def bitset_defs upd)
  have bits: "well_typed mx (st ! a) \<and> well_typed mx (st ! b) \<longrightarrow>
            (\<forall>i. i < size_ecb mx (st ! a) \<longrightarrow>
               map2 (\<and>) (mBitset (st ! a)) (mBitset (st ! b)) ! i =
                 (mBitset (st ! a) ! i \<and> mBitset (st ! b) ! i) \<and>
               map2 (\<or>) (mBitset (st ! a)) (mBitset (st ! b)) ! i =
                 (mBitset (st ! a) ! i \<or> mBitset (st ! b) ! i) \<and>
               map2 (\<noteq>) (mBitset (st ! a)) (mBitset (st ! b)) ! i =
                 (mBitset (st ! a) ! i \<noteq> mBitset (st ! b) ! i) \<and>
               map Not (mBitset (st ! a)) ! i = (\<not> mBitset (st ! a) ! i))"
    by (simp add: well_typed_def size_ecb_def bitset_size_def)
  from calls assigns bits show ?thesis by blast
qed

text \<open>
  C6 at a store of the two \<^verbatim>\<open>TestEnum\<close> sets \<open>{A, B}\<close> and \<open>{B, D}\<close>: the four operators
  return \<open>{B}\<close>, \<open>{A, B, D}\<close>, \<open>{A, D}\<close> and \<open>{C, D}\<close> and leave the store; the three
  assignment forms return the reference 0 and put \<open>{B}\<close>, \<open>{A, B, D}\<close> and \<open>{A, D}\<close> at
  address 0.
\<close>

theorem C6_operands_and_results_witness:
  "(0::nat) < length [\<lparr>mBitset = [True, True, False, False]\<rparr>,
                     \<lparr>mBitset = [False, True, False, True]\<rparr>] \<and>
   (1::nat) < length [\<lparr>mBitset = [True, True, False, False]\<rparr>,
                     \<lparr>mBitset = [False, True, False, True]\<rparr>] \<and>
   call_op_and TestEnum_max [\<lparr>mBitset = [True, True, False, False]\<rparr>,
                             \<lparr>mBitset = [False, True, False, True]\<rparr>] 0 1 =
     Inr (\<lparr>mBitset = [False, True, False, False]\<rparr>,
          [\<lparr>mBitset = [True, True, False, False]\<rparr>,
           \<lparr>mBitset = [False, True, False, True]\<rparr>]) \<and>
   call_op_or TestEnum_max [\<lparr>mBitset = [True, True, False, False]\<rparr>,
                            \<lparr>mBitset = [False, True, False, True]\<rparr>] 0 1 =
     Inr (\<lparr>mBitset = [True, True, False, True]\<rparr>,
          [\<lparr>mBitset = [True, True, False, False]\<rparr>,
           \<lparr>mBitset = [False, True, False, True]\<rparr>]) \<and>
   call_op_xor TestEnum_max [\<lparr>mBitset = [True, True, False, False]\<rparr>,
                             \<lparr>mBitset = [False, True, False, True]\<rparr>] 0 1 =
     Inr (\<lparr>mBitset = [True, False, False, True]\<rparr>,
          [\<lparr>mBitset = [True, True, False, False]\<rparr>,
           \<lparr>mBitset = [False, True, False, True]\<rparr>]) \<and>
   call_op_not TestEnum_max [\<lparr>mBitset = [True, True, False, False]\<rparr>,
                             \<lparr>mBitset = [False, True, False, True]\<rparr>] 0 =
     Inr (\<lparr>mBitset = [False, False, True, True]\<rparr>,
          [\<lparr>mBitset = [True, True, False, False]\<rparr>,
           \<lparr>mBitset = [False, True, False, True]\<rparr>]) \<and>
   call_op_and_assign TestEnum_max [\<lparr>mBitset = [True, True, False, False]\<rparr>,
                                    \<lparr>mBitset = [False, True, False, True]\<rparr>] 0 1 =
     Inr (0, [\<lparr>mBitset = [False, True, False, False]\<rparr>,
              \<lparr>mBitset = [False, True, False, True]\<rparr>]) \<and>
   call_op_or_assign TestEnum_max [\<lparr>mBitset = [True, True, False, False]\<rparr>,
                                   \<lparr>mBitset = [False, True, False, True]\<rparr>] 0 1 =
     Inr (0, [\<lparr>mBitset = [True, True, False, True]\<rparr>,
              \<lparr>mBitset = [False, True, False, True]\<rparr>]) \<and>
   call_op_xor_assign TestEnum_max [\<lparr>mBitset = [True, True, False, False]\<rparr>,
                                    \<lparr>mBitset = [False, True, False, True]\<rparr>] 0 1 =
     Inr (0, [\<lparr>mBitset = [True, False, False, True]\<rparr>,
              \<lparr>mBitset = [False, True, False, True]\<rparr>])"
  using C6_operands_and_results [of 0 "[\<lparr>mBitset = [True, True, False, False]\<rparr>,
                     \<lparr>mBitset = [False, True, False, True]\<rparr>]" 1 TestEnum_max]
  by simp

text \<open>
  The calls on objects of the store compute what the member functions compute on the
  values of the objects.
\<close>

lemma calls_agree_with_member_functions:
  assumes "a < length st" and "b < length st"
  shows "call_op_and mx st a b = Inr (op_and mx (st ! a) (st ! b), st) \<and>
         call_op_or mx st a b = Inr (op_or mx (st ! a) (st ! b), st) \<and>
         call_op_xor mx st a b = Inr (op_xor mx (st ! a) (st ! b), st) \<and>
         call_op_not mx st a = Inr (op_not mx (st ! a), st) \<and>
         call_op_and_assign mx st a b = Inr (a, st[a := op_and_assign mx (st ! a) (st ! b)]) \<and>
         call_op_or_assign mx st a b = Inr (a, st[a := op_or_assign mx (st ! a) (st ! b)]) \<and>
         call_op_xor_assign mx st a b = Inr (a, st[a := op_xor_assign mx (st ! a) (st ! b)])"
  using assms
  by (simp add: call_op_and_def call_op_or_def call_op_xor_def call_op_not_def
      call_op_and_assign_def call_op_or_assign_def call_op_xor_assign_def deref_def Let_def
      nth_append op_and_def op_or_def op_xor_def op_not_def op_and_assign_def op_or_assign_def
      op_xor_assign_def)

lemma findNext_post_index_unique:
  assumes "findNext_post mx s a i it1" and "findNext_post mx s b i it2"
  shows "it_index it1 = it_index it2"
proof (rule ccontr)
  assume ne: "it_index it1 \<noteq> it_index it2"
  show False
  proof (cases "it_index it1 < it_index it2")
    case True
    then have "it_index it1 < size_ecb mx s" using assms(2) by (auto simp: findNext_post_def)
    then have "mBitset s ! it_index it1" using assms(1) by (auto simp: findNext_post_def)
    moreover have "\<not> mBitset s ! it_index it1"
      using True assms by (auto simp: findNext_post_def)
    ultimately show False by simp
  next
    case False
    then have lt: "it_index it2 < it_index it1" using ne by simp
    then have "it_index it2 < size_ecb mx s" using assms(1) by (auto simp: findNext_post_def)
    then have "mBitset s ! it_index it2" using assms(2) by (auto simp: findNext_post_def)
    moreover have "\<not> mBitset s ! it_index it2"
      using lt assms by (auto simp: findNext_post_def)
    ultimately show False by simp
  qed
qed

lemma begin_ecb_post:
  assumes "deref st a = Inr s"
  shows "\<exists>it. begin_ecb mx st a = Inr it \<and> findNext_post mx s a 0 it"
proof -
  have "\<exists>it'. findNext mx st (iterator_ctor a 0) = Inr it' \<and>
          findNext_post mx s a (it_index (iterator_ctor a 0)) it'"
    by (intro findNext_spec[OF assms]) (auto simp: iterator_ctor_def)
  then show ?thesis by (auto simp: begin_ecb_def iterator_ctor_def)
qed

text \<open>
  Claim C8: two iterators are equal if and only if they refer to the same set object and
  have the same index, and \<open>!=\<close> is the negation. Iterators over different objects are never
  equal: the \<open>begin()\<close> iterators of two different objects with the same contents have the
  same index and are not equal, and neither are their \<open>end()\<close> iterators.
\<close>

theorem C8_iterator_equality:
  "(op_eq_iterator i j \<longleftrightarrow> it_bitset i = it_bitset j \<and> it_index i = it_index j) \<and>
   (op_neq_iterator i j \<longleftrightarrow> \<not> op_eq_iterator i j) \<and>
   (it_bitset i \<noteq> it_bitset j \<longrightarrow> \<not> op_eq_iterator i j) \<and>
   (a \<noteq> b \<and> deref st a = Inr s \<and> deref st b = Inr s \<longrightarrow>
      (\<exists>ia ib. begin_ecb mx st a = Inr ia \<and> begin_ecb mx st b = Inr ib \<and>
         it_index ia = it_index ib \<and> \<not> op_eq_iterator ia ib \<and>
         \<not> op_eq_iterator (end_ecb mx a) (end_ecb mx b)))"
proof -
  have "\<exists>ia ib. begin_ecb mx st a = Inr ia \<and> begin_ecb mx st b = Inr ib \<and>
         it_index ia = it_index ib \<and> \<not> op_eq_iterator ia ib \<and>
         \<not> op_eq_iterator (end_ecb mx a) (end_ecb mx b)"
    if ab: "a \<noteq> b" and da: "deref st a = Inr s" and db: "deref st b = Inr s"
  proof -
    obtain ia where ia: "begin_ecb mx st a = Inr ia" "findNext_post mx s a 0 ia"
      using begin_ecb_post[OF da] by blast
    obtain ib where ib: "begin_ecb mx st b = Inr ib" "findNext_post mx s b 0 ib"
      using begin_ecb_post[OF db] by blast
    have "it_index ia = it_index ib"
      using ia(2) ib(2) by (rule findNext_post_index_unique)
    moreover have "\<not> op_eq_iterator ia ib"
      using ab ia(2) ib(2) by (simp add: op_eq_iterator_def findNext_post_def)
    moreover have "\<not> op_eq_iterator (end_ecb mx a) (end_ecb mx b)"
      using ab by (simp add: op_eq_iterator_def end_ecb_def iterator_ctor_def)
    ultimately show ?thesis using ia(1) ib(1) by blast
  qed
  then show ?thesis
    by (auto simp: op_eq_iterator_def op_neq_iterator_def)
qed

text \<open>
  C8 at a store of two objects that both hold the \<^verbatim>\<open>TestEnum\<close> set \<open>{B, D}\<close>.
\<close>

theorem C8_iterator_equality_witness:
  "(0::nat) \<noteq> 1 \<and>
   deref [\<lparr>mBitset = [False, True, False, True]\<rparr>, \<lparr>mBitset = [False, True, False, True]\<rparr>] 0
     = Inr \<lparr>mBitset = [False, True, False, True]\<rparr> \<and>
   deref [\<lparr>mBitset = [False, True, False, True]\<rparr>, \<lparr>mBitset = [False, True, False, True]\<rparr>] 1
     = Inr \<lparr>mBitset = [False, True, False, True]\<rparr> \<and>
   (\<exists>ia ib.
      begin_ecb TestEnum_max
        [\<lparr>mBitset = [False, True, False, True]\<rparr>, \<lparr>mBitset = [False, True, False, True]\<rparr>] 0
        = Inr ia \<and>
      begin_ecb TestEnum_max
        [\<lparr>mBitset = [False, True, False, True]\<rparr>, \<lparr>mBitset = [False, True, False, True]\<rparr>] 1
        = Inr ib \<and>
      it_index ia = it_index ib \<and> \<not> op_eq_iterator ia ib)"
proof -
  have h: "(0::nat) \<noteq> 1 \<and>
   deref [\<lparr>mBitset = [False, True, False, True]\<rparr>, \<lparr>mBitset = [False, True, False, True]\<rparr>] 0
     = Inr \<lparr>mBitset = [False, True, False, True]\<rparr> \<and>
   deref [\<lparr>mBitset = [False, True, False, True]\<rparr>, \<lparr>mBitset = [False, True, False, True]\<rparr>] 1
     = Inr \<lparr>mBitset = [False, True, False, True]\<rparr>"
    by (simp add: deref_def)
  from C8_iterator_equality [of "iterator_ctor 0 0" "iterator_ctor 1 0" 0 1
      "[\<lparr>mBitset = [False, True, False, True]\<rparr>, \<lparr>mBitset = [False, True, False, True]\<rparr>]"
      "\<lparr>mBitset = [False, True, False, True]\<rparr>" TestEnum_max] h
  show ?thesis by blast
qed

text \<open>
  Claim C9 says that bit \<open>i\<close> of the exported raw bitset equals \<open>test\<close> of the member of
  ordinal \<open>i\<close>, for every ordinal \<open>i\<close> of the domain \<open>0 .. ordinal(max)\<close>. The export of a
  \<^verbatim>\<open>TestEnum\<close> set has four bits: at the ordinal 4 of the last member \<open>E\<close> it has no bit
  (\<^verbatim>\<open>raw.test(4)\<close> throws \<^verbatim>\<open>std::out_of_range\<close>), and \<open>test(E)\<close> throws too. Below \<open>size()\<close>
  the claim holds, and changing the copy leaves the set as it was: \<open>raw_export_below_size\<close>
  and \<open>raw_export_is_a_copy\<close> below.
\<close>

theorem C9_raw_export_TestEnum_E:
  "length (to_raw_bitset TestEnum_max \<lparr>mBitset = [True, True, False, False]\<rparr>) = 4 \<and>
   enumIndex TestEnum_E = 4 \<and>
   bitset_test (ImplType_N TestEnum_max)
     (to_raw_bitset TestEnum_max \<lparr>mBitset = [True, True, False, False]\<rparr>) (enumIndex TestEnum_E)
     = Inl out_of_range \<and>
   test TestEnum_max \<lparr>mBitset = [True, True, False, False]\<rparr> TestEnum_E = Inl out_of_range"
  by (simp add: TestEnum_defs ecb_defs bitset_defs)

text \<open>
  Below \<open>size()\<close>, bit \<open>i\<close> of the export is \<open>test\<close> of the member of ordinal \<open>i\<close>, read
  with \<^verbatim>\<open>raw[i]\<close> or with \<^verbatim>\<open>raw.test(i)\<close>; the export of a set that has the bits of its type
  has \<open>size()\<close> bits.
\<close>

lemma raw_export_below_size:
  assumes "i < size_ecb mx s"
  shows "test mx s (static_cast_T i) = Inr (to_raw_bitset mx s ! i) \<and>
         bitset_test (ImplType_N mx) (to_raw_bitset mx s) i = Inr (to_raw_bitset mx s ! i) \<and>
         (well_typed mx s \<longrightarrow> length (to_raw_bitset mx s) = size_ecb mx s)"
  using assms by (simp add: well_typed_def ecb_defs bitset_defs static_cast_T_def)

text \<open>
  After \<^verbatim>\<open>raw = e2.to_raw_bitset(); raw.set(pos, val);\<close> the copy has the new bit, and the
  set \<open>e2\<close>, its \<open>test\<close> and its raw export are what they were.
\<close>

lemma raw_export_is_a_copy:
  assumes "stmt_raw_set mx (stmt_export mx vars) pos val = Inr vars'"
  shows "e2 vars' = e2 vars \<and> raw vars' = (mBitset (e2 vars))[pos := val] \<and>
         test mx (e2 vars') m = test mx (e2 vars) m \<and>
         to_raw_bitset mx (e2 vars') = to_raw_bitset mx (e2 vars)"
  using assms
  by (auto simp: ecb_defs bitset_defs stmt_raw_set_def stmt_export_def split: if_splits)

text \<open>
  Claim C7 says that iterating a full set yields exactly \<open>K = ordinal(max) + 1\<close> elements,
  the full domain. The full \<^verbatim>\<open>TestEnum\<close> set (\<open>all()\<close> is true) yields the four members
  \<open>A, B, C, D\<close>: the last member \<open>E\<close> is never yielded. The rest of the claim holds:
  \<open>range_for_yields_present_members\<close> below (the loop ends, and it yields exactly the
  members whose \<open>test\<close> is true, in ascending order of ordinal, each once).
\<close>

theorem C7_full_TestEnum:
  "all_ecb TestEnum_max (flip TestEnum_max (EnumClassBitset_ctor TestEnum_max)) \<and>
   range_for TestEnum_max [flip TestEnum_max (EnumClassBitset_ctor TestEnum_max)] 0 =
     Some (Inr [TestEnum_A, TestEnum_B, TestEnum_C, TestEnum_D]) \<and>
   enumIndex TestEnum_max + 1 = 5"
proof -
  have "range_for TestEnum_max [flip TestEnum_max (EnumClassBitset_ctor TestEnum_max)] 0 =
     Some (Inr [TestEnum_A, TestEnum_B, TestEnum_C, TestEnum_D])"
    by code_simp
  then show ?thesis by (simp add: TestEnum_defs ecb_defs bitset_defs)
qed

lemma range_for_yields_present_members:
  assumes "deref st a = Inr s"
  shows "\<exists>els. range_for mx st a = Some (Inr els) \<and>
           set els = {m. test mx s m = Inr True} \<and>
           sorted_wrt (\<lambda>x y. enumIndex x < enumIndex y) els \<and> distinct els"
proof -
  let ?js = "filter (\<lambda>j. mBitset s ! j) [0..<size_ecb mx s]"
  let ?els = "map static_cast_T ?js"
  have r: "range_for mx st a = Some (Inr ?els)" by (rule range_for_spec[OF assms])
  have ix: "map enumIndex ?els = ?js"
    by (simp add: static_cast_T_def comp_def)
  have srt: "sorted_wrt (<) ?js" by (intro sorted_wrt_filter) simp
  have "sorted_wrt (\<lambda>x y. enumIndex x < enumIndex y) ?els"
    using srt by (simp add: sorted_wrt_map static_cast_T_def)
  moreover have "distinct ?els"
    by (simp add: distinct_map static_cast_T_def inj_on_def)
  moreover have "set ?els = {m. test mx s m = Inr True}"
  proof (intro set_eqI iffI)
    fix m assume "m \<in> set ?els"
    then obtain j where "j < size_ecb mx s" "mBitset s ! j" "m = static_cast_T j" by auto
    then have "test mx s m = Inr True"
      by (simp add: test_in_range static_cast_T_def)
    then show "m \<in> {m. test mx s m = Inr True}" by simp
  next
    fix m assume "m \<in> {m. test mx s m = Inr True}"
    then have t: "test mx s m = Inr True" by simp
    have lt: "enumIndex m < size_ecb mx s"
      using t test_out_of_range[of m mx s] by (cases "enumIndex m < size_ecb mx s") auto
    then have "mBitset s ! enumIndex m" using t by (simp add: test_in_range)
    moreover have "m = static_cast_T (enumIndex m)"
      by (cases m) (simp add: static_cast_T_def)
    ultimately show "m \<in> set ?els" using lt by (metis (mono_tags, lifting) atLeast0LessThan imageI lessThan_iff mem_Collect_eq set_filter set_map set_upt)
  qed
  ultimately show ?thesis using r by blast
qed

end
